theory Spec2Isabelle
  imports Complex_Main
begin

section \<open>Snap points of the bottom sheet: \<open>useAnimatedSnapPoints\<close>\<close>

text \<open>
  The hook \<open>useAnimatedSnapPoints\<close> (src/hooks/useAnimatedSnapPoints.ts) owns one shared
  value, \<open>dynamicSnapPointIndex\<close>, and two derived values, \<open>normalizedSnapPoints\<close> and
  \<open>hasDynamicSnapPoint\<close>.  Each derived value is a worklet that is re-run whenever one of
  its inputs changes; it is embedded as a function from the inputs (and, for
  \<open>normalizedSnapPoints\<close>, the stored index) to its result (and the index it leaves behind).

  JavaScript numbers are embedded as \<open>real\<close>: every measurement is taken to be a number
  other than NaN, and the three arithmetic operations of the worklet are exact.  The
  optional \<open>onLog\<close> callback only receives trace strings and is left out.
\<close>

subsection \<open>Data\<close>

text \<open>An entry of the \<open>snapPoints\<close> prop is a number or a string (\<open>typeof\<close> tells which).\<close>

datatype snap_point = Num real | Str string

text \<open>
  The prop itself is absent (\<open>null\<close> or \<open>undefined\<close>), a plain array, or a shared value
  whose \<open>value\<close> is an array.
\<close>

datatype snap_points_prop = Absent | Plain "snap_point list" | Shared "snap_point list"

text \<open>
  What the hook imports from files that are not part of the source at hand: the three
  constants of \<open>components/bottomSheet/constants\<close> and the helper \<open>normalizeSnapPoint\<close>
  of \<open>utilities\<close>.  They are parameters of the model.
\<close>

record env =
  INITIAL_CONTAINER_HEIGHT :: real
  INITIAL_HANDLE_HEIGHT :: real
  INITIAL_SNAP_POINT :: real
  normalizeSnapPoint :: "snap_point \<Rightarrow> real \<Rightarrow> real"

text \<open>
  The arguments of the hook.  The four heights are the current \<open>.value\<close> of the shared
  values; \<open>enableDynamicSizing\<close> is the truthiness of the prop (it is only ever tested with
  \<open>if\<close>); \<open>maxDynamicContentSize\<close> is \<open>None\<close> when the prop is \<open>undefined\<close>.
\<close>

record inputs =
  snapPoints :: snap_points_prop
  containerHeight :: real
  contentHeight :: real
  handleHeight :: real
  footerHeight :: real
  enableDynamicSizing :: bool
  maxDynamicContentSize :: "real option"

subsection \<open>Array operations used by the worklets\<close>

text \<open>\<open>Array.prototype.includes\<close> (\<open>includes\<close> is reserved in Isabelle).\<close>

fun array_includes :: "real list \<Rightarrow> real \<Rightarrow> bool" where
  "array_includes [] x = False"
| "array_includes (y # ys) x = (if y = x then True else array_includes ys x)"

text \<open>\<open>Array.prototype.indexOf\<close>: the first position holding the value, or \<open>-1\<close>.\<close>

fun indexOf_from :: "nat \<Rightarrow> real list \<Rightarrow> real \<Rightarrow> int" where
  "indexOf_from k [] x = - 1"
| "indexOf_from k (y # ys) x = (if y = x then int k else indexOf_from (Suc k) ys x)"

definition indexOf :: "real list \<Rightarrow> real \<Rightarrow> int" where
  "indexOf xs x = indexOf_from 0 xs x"

text \<open>
  \<open>Array.prototype.sort\<close> with a comparator: a stable sort that puts \<open>a\<close> before \<open>b\<close>
  when \<open>cmp a b\<close> is negative and keeps their order when it is zero.  It is written as the
  insertion sort that works from the right end of the array.
\<close>

fun insert_by :: "(real \<Rightarrow> real \<Rightarrow> real) \<Rightarrow> real \<Rightarrow> real list \<Rightarrow> real list" where
  "insert_by cmp x [] = [x]"
| "insert_by cmp x (y # ys) =
     (if cmp x y \<le> 0 then x # y # ys else y # insert_by cmp x ys)"

fun sort_by :: "(real \<Rightarrow> real \<Rightarrow> real) \<Rightarrow> real list \<Rightarrow> real list" where
  "sort_by cmp [] = []"
| "sort_by cmp (x # xs) = insert_by cmp x (sort_by cmp xs)"

text \<open>\<open>Array.prototype.find\<close>: the first element satisfying the predicate, if any.\<close>

fun find_first :: "(snap_point \<Rightarrow> bool) \<Rightarrow> snap_point list \<Rightarrow> snap_point option" where
  "find_first p [] = None"
| "find_first p (x # xs) = (if p x then Some x else find_first p xs)"

text \<open>\<open>typeof snapPoint === 'string'\<close>.\<close>

fun is_string :: "snap_point \<Rightarrow> bool" where
  "is_string (Str s) = True"
| "is_string (Num n) = False"

text \<open>
  Truthiness of what \<open>find\<close> returns: \<open>undefined\<close>, the empty string and zero are falsy.
\<close>

fun truthy :: "snap_point option \<Rightarrow> bool" where
  "truthy None = False"
| "truthy (Some (Str s)) = (s \<noteq> [])"
| "truthy (Some (Num n)) = (n \<noteq> 0)"

subsection \<open>The worklets\<close>

text \<open>
  The local \<open>_snapPoints\<close>, the snap points extracted from the prop:
  \<open>snapPoints ? ('value' in snapPoints ? snapPoints.value : snapPoints) : []\<close>.
\<close>

fun extractSnapPoints :: "snap_points_prop \<Rightarrow> snap_point list" where
  "extractSnapPoints Absent = []"
| "extractSnapPoints (Shared v) = v"
| "extractSnapPoints (Plain xs) = xs"

text \<open>The local constant \<open>dynamicSnapPoint\<close> of the worklet (lines 79 to 86).\<close>

definition dynamicSnapPoint :: "inputs \<Rightarrow> real" where
  "dynamicSnapPoint i =
     containerHeight i -
       min (contentHeight i + handleHeight i + footerHeight i)
           (if maxDynamicContentSize i \<noteq> None then the (maxDynamicContentSize i)
            else containerHeight i)"

text \<open>
  The worklet of \<open>normalizedSnapPoints\<close>.  It gets the stored \<open>dynamicSnapPointIndex\<close> and
  returns the array together with the index stored when it ends.
\<close>

definition normalizedSnapPoints :: "env \<Rightarrow> inputs \<Rightarrow> int \<Rightarrow> real list \<times> int" where
  "normalizedSnapPoints e i dynamicSnapPointIndex =
     (let isContainerLayoutReady = (containerHeight i \<noteq> INITIAL_CONTAINER_HEIGHT e) in
      if \<not> isContainerLayoutReady then ([INITIAL_SNAP_POINT e], dynamicSnapPointIndex)
      else
        let snaps = extractSnapPoints (snapPoints i);
            normalized = map (\<lambda>snapPoint. normalizeSnapPoint e snapPoint (containerHeight i)) snaps
        in
        if \<not> enableDynamicSizing i then (normalized, dynamicSnapPointIndex)
        else if handleHeight i = INITIAL_HANDLE_HEIGHT e
          then ([INITIAL_SNAP_POINT e], dynamicSnapPointIndex)
        else if contentHeight i = INITIAL_CONTAINER_HEIGHT e
          then ([INITIAL_SNAP_POINT e], dynamicSnapPointIndex)
        else
          let d = dynamicSnapPoint i;
              pushed = (if \<not> array_includes normalized d then normalized @ [d] else normalized);
              sorted_points = sort_by (\<lambda>a b. b - a) pushed
          in (sorted_points, indexOf sorted_points d))"

text \<open>The worklet of \<open>hasDynamicSnapPoint\<close>.\<close>

definition hasDynamicSnapPoint :: "inputs \<Rightarrow> bool" where
  "hasDynamicSnapPoint i =
     (if enableDynamicSizing i then True
      else
        let snaps = extractSnapPoints (snapPoints i) in
        if length snaps \<noteq> 0 \<and> truthy (find_first is_string snaps) then True
        else False)"

subsection \<open>The hook as a transition system\<close>

text \<open>
  The hook's state between two runs of the worklet: the inputs of the latest run, the
  array held by the derived value, and the shared value \<open>dynamicSnapPointIndex\<close>.
\<close>

record hook_state =
  latest :: inputs
  normalized :: "real list"
  dynamicSnapPointIndex :: int

text \<open>One run of the worklet on the inputs \<open>i\<close> when the stored index is \<open>k\<close>.\<close>

definition run :: "env \<Rightarrow> inputs \<Rightarrow> int \<Rightarrow> hook_state" where
  "run e i k =
     (case normalizedSnapPoints e i k of
        (points, k') \<Rightarrow> \<lparr>latest = i, normalized = points, dynamicSnapPointIndex = k'\<rparr>)"

text \<open>
  \<open>useSharedValue<number>(-1)\<close> creates the index, the first run happens on mount, and
  every change of an input runs the worklet again.
\<close>

inductive reachable :: "env \<Rightarrow> hook_state \<Rightarrow> bool" for e :: env where
  mount: "reachable e (run e i (- 1))"
| update: "reachable e s \<Longrightarrow> reachable e (run e i (dynamicSnapPointIndex s))"

subsection \<open>Vocabulary of the specification\<close>

text \<open>Container layout is ready: the test of line 40.\<close>

definition containerLayoutReady :: "env \<Rightarrow> inputs \<Rightarrow> bool" where
  "containerLayoutReady e i = (containerHeight i \<noteq> INITIAL_CONTAINER_HEIGHT e)"

text \<open>
  Handle and content measurements are ready: neither test of lines 67 and 73 fires.  The
  content height is compared with \<open>INITIAL_CONTAINER_HEIGHT\<close>, as the source does.
\<close>

definition measurementsReady :: "env \<Rightarrow> inputs \<Rightarrow> bool" where
  "measurementsReady e i =
     (handleHeight i \<noteq> INITIAL_HANDLE_HEIGHT e \<and> contentHeight i \<noteq> INITIAL_CONTAINER_HEIGHT e)"

text \<open>The raw list after element-wise normalization, in raw order.\<close>

definition normalizedRaw :: "env \<Rightarrow> inputs \<Rightarrow> real list" where
  "normalizedRaw e i =
     map (\<lambda>snapPoint. normalizeSnapPoint e snapPoint (containerHeight i))
       (extractSnapPoints (snapPoints i))"

text \<open>The array after the conditional push of lines 90 to 92.\<close>

definition pushIfMissing :: "real list \<Rightarrow> real \<Rightarrow> real list" where
  "pushIfMissing ns d = (if \<not> array_includes ns d then ns @ [d] else ns)"

text \<open>Sorted in descending order.\<close>

definition descending :: "real list \<Rightarrow> bool" where
  "descending xs = sorted_wrt (\<lambda>a b. b \<le> a) xs"

text \<open>
  The formula of the specification for the dynamic point,
  \<open>containerHeight - min(contentHeight + handleHeight + footerHeight, cap ?? containerHeight)\<close>.
\<close>

definition dynamicPoint_spec :: "inputs \<Rightarrow> real" where
  "dynamicPoint_spec i =
     containerHeight i -
       min (contentHeight i + handleHeight i + footerHeight i)
           (case maxDynamicContentSize i of None \<Rightarrow> containerHeight i | Some cap \<Rightarrow> cap)"

text \<open>
  A run takes the full dynamic-sizing branch (lines 78 to 102): none of the four early
  exits fires.
\<close>

definition fullRun :: "env \<Rightarrow> inputs \<Rightarrow> bool" where
  "fullRun e i = (containerLayoutReady e i \<and> enableDynamicSizing i \<and> measurementsReady e i)"

text \<open>
  The runs behind a state: \<open>history e past s\<close> says that mounting and then running the
  worklet on every change of the inputs, with \<open>past\<close> the inputs of all runs so far, latest
  first, leads to the state \<open>s\<close>.
\<close>

inductive history :: "env \<Rightarrow> inputs list \<Rightarrow> hook_state \<Rightarrow> bool" for e :: env where
  first: "history e [i] (run e i (- 1))"
| later: "history e past s \<Longrightarrow> history e (i # past) (run e i (dynamicSnapPointIndex s))"

subsection \<open>An instance of the imported names\<close>

text \<open>
  Modelled from the spec: the helper \<open>normalizeSnapPoint\<close> of \<open>utilities\<close> is not in the
  source at hand.  The specification says that an entry is a literal pixel size or a
  percentage-of-container string and that the helper converts it to pixels relative to
  the container height: a number stands for itself, and a string of decimal digits
  followed by \<open>%\<close> stands for that many hundredths of the container height.  What the
  helper does with any other string is outside the specification; here a character before
  the \<open>%\<close> that is no decimal digit counts as the digit \<open>0\<close>.
\<close>

definition digit :: "char \<Rightarrow> nat" where
  "digit c = (let n = of_char c in if 48 \<le> n \<and> n \<le> 57 then n - 48 else 0)"

definition percentage :: "string \<Rightarrow> real" where
  "percentage s =
     real (foldl (\<lambda>n c. 10 * n + digit c) 0 (takeWhile (\<lambda>c. c \<noteq> CHR ''%'') s))"

fun normalizeSnapPoint_spec :: "snap_point \<Rightarrow> real \<Rightarrow> real" where
  "normalizeSnapPoint_spec (Num n) h = n"
| "normalizeSnapPoint_spec (Str s) h = percentage s * h / 100"

text \<open>
  A concrete environment for evaluating the worklets: the helper above, and one value
  for the three constants, which the source at hand does not fix.
\<close>

definition env_example :: env where
  "env_example =
     \<lparr>INITIAL_CONTAINER_HEIGHT = - 999, INITIAL_HANDLE_HEIGHT = - 999,
      INITIAL_SNAP_POINT = - 999, normalizeSnapPoint = normalizeSnapPoint_spec\<rparr>"

subsection \<open>Concrete inputs\<close>

text \<open>
  Inputs on which the worklets are evaluated below.  The container is 1000 pixels high
  wherever its layout is ready.
\<close>

definition i_dup :: inputs where
  "i_dup = \<lparr>snapPoints = Plain [Num 500, Num 500], containerHeight = 1000, contentHeight = 400,
     handleHeight = 100, footerHeight = 0, enableDynamicSizing = True,
     maxDynamicContentSize = None\<rparr>"

definition i_once :: inputs where
  "i_once = \<lparr>snapPoints = Plain [Num 200, Str ''80%''], containerHeight = 1000, contentHeight = 400,
     handleHeight = 100, footerHeight = 0, enableDynamicSizing = True,
     maxDynamicContentSize = None\<rparr>"

definition i_capped :: inputs where
  "i_capped = \<lparr>snapPoints = Shared [Num 200, Str ''80%''], containerHeight = 1000, contentHeight = 700,
     handleHeight = 24, footerHeight = 60, enableDynamicSizing = True,
     maxDynamicContentSize = Some 600\<rparr>"

definition i_static :: inputs where
  "i_static = \<lparr>snapPoints = Plain [Num 500, Num 200, Num 500], containerHeight = 1000,
     contentHeight = - 999, handleHeight = - 999, footerHeight = 0, enableDynamicSizing = False,
     maxDynamicContentSize = None\<rparr>"

definition i_sentinel :: inputs where
  "i_sentinel = \<lparr>snapPoints = Absent, containerHeight = 1000, contentHeight = 5000,
     handleHeight = 24, footerHeight = 0, enableDynamicSizing = True,
     maxDynamicContentSize = Some 1999\<rparr>"

definition i_unmounted :: inputs where
  "i_unmounted = \<lparr>snapPoints = Plain [Num 200, Str ''80%''], containerHeight = - 999,
     contentHeight = - 999, handleHeight = - 999, footerHeight = 0, enableDynamicSizing = True,
     maxDynamicContentSize = None\<rparr>"

definition i_absent_static :: inputs where
  "i_absent_static = \<lparr>snapPoints = Absent, containerHeight = 1000, contentHeight = 400,
     handleHeight = 24, footerHeight = 0, enableDynamicSizing = False,
     maxDynamicContentSize = None\<rparr>"

definition i_absent_dynamic :: inputs where
  "i_absent_dynamic = \<lparr>snapPoints = Absent, containerHeight = 1000, contentHeight = 400,
     handleHeight = 24, footerHeight = 0, enableDynamicSizing = True,
     maxDynamicContentSize = None\<rparr>"

definition i_unmeasured :: inputs where
  "i_unmeasured = \<lparr>snapPoints = Plain [Num 200, Str ''80%''], containerHeight = 1000,
     contentHeight = 400, handleHeight = - 999, footerHeight = 0, enableDynamicSizing = True,
     maxDynamicContentSize = None\<rparr>"

definition i_empty_string_first :: inputs where
  "i_empty_string_first = \<lparr>snapPoints = Plain [Str '''', Str ''50%''], containerHeight = 1000,
     contentHeight = 400, handleHeight = 24, footerHeight = 0, enableDynamicSizing = False,
     maxDynamicContentSize = None\<rparr>"

definition i_descending :: inputs where
  "i_descending = \<lparr>snapPoints = Plain [Str ''80%'', Num 200], containerHeight = 1000,
     contentHeight = - 999, handleHeight = - 999, footerHeight = 0, enableDynamicSizing = False,
     maxDynamicContentSize = None\<rparr>"

text \<open>
  Two states of the hook: after mounting with every measurement ready, and after
  \<open>enableDynamicSizing\<close> has then been switched off.
\<close>

definition s_mounted :: hook_state where
  "s_mounted = run env_example i_absent_dynamic (- 1)"

definition s_stale :: hook_state where
  "s_stale = run env_example i_absent_static (dynamicSnapPointIndex s_mounted)"

section \<open>Facts about the array operations\<close>

lemma array_includes_set: "array_includes xs x = (x \<in> set xs)"
  by (induction xs) auto

lemma indexOf_from_range:
  "x \<in> set ys \<Longrightarrow> int k \<le> indexOf_from k ys x \<and> indexOf_from k ys x < int k + int (length ys)"
proof (induction ys arbitrary: k)
  case Nil
  then show ?case by simp
next
  case (Cons y ys)
  show ?case
  proof (cases "y = x")
    case True
    then show ?thesis by simp
  next
    case False
    with Cons.prems have "x \<in> set ys" by simp
    from Cons.IH [OF this, of "Suc k"] False show ?thesis by simp
  qed
qed

lemma indexOf_from_nth:
  "x \<in> set ys \<Longrightarrow> ys ! (nat (indexOf_from k ys x) - k) = x"
proof (induction ys arbitrary: k)
  case Nil
  then show ?case by simp
next
  case (Cons y ys)
  show ?case
  proof (cases "y = x")
    case True
    then show ?thesis by simp
  next
    case False
    with Cons.prems have mem: "x \<in> set ys" by simp
    from indexOf_from_range [OF mem, of "Suc k"]
    have "nat (indexOf_from (Suc k) ys x) - k = Suc (nat (indexOf_from (Suc k) ys x) - Suc k)"
      by linarith
    with False Cons.IH [OF mem, of "Suc k"] show ?thesis by simp
  qed
qed

lemma indexOf_from_absent: "x \<notin> set ys \<Longrightarrow> indexOf_from k ys x = - 1"
  by (induction ys arbitrary: k) auto

lemma set_insert_by: "set (insert_by cmp x xs) = insert x (set xs)"
  by (induction xs) auto

lemma count_insert_by: "count_list (insert_by cmp x xs) y = count_list (x # xs) y"
  by (induction xs) auto

lemma length_insert_by: "length (insert_by cmp x xs) = Suc (length xs)"
  by (induction xs) auto

lemma set_sort_by: "set (sort_by cmp xs) = set xs"
  by (induction xs) (auto simp: set_insert_by)

lemma count_sort_by: "count_list (sort_by cmp xs) y = count_list xs y"
  by (induction xs) (auto simp: count_insert_by)

lemma length_sort_by: "length (sort_by cmp xs) = length xs"
  by (induction xs) (auto simp: length_insert_by)

lemma descending_insert_by:
  "sorted_wrt (\<lambda>a b. b \<le> a) xs \<Longrightarrow> sorted_wrt (\<lambda>a b. b \<le> a) (insert_by (\<lambda>a b. b - a) x xs)"
  by (induction xs) (auto simp: set_insert_by)

lemma descending_sort_by: "sorted_wrt (\<lambda>a b. b \<le> a) (sort_by (\<lambda>a b. b - a) xs)"
  by (induction xs) (auto simp: descending_insert_by)

lemma indexOf_range:
  "x \<in> set xs \<Longrightarrow> 0 \<le> indexOf xs x \<and> indexOf xs x < int (length xs)"
  using indexOf_from_range [of x xs 0] by (simp add: indexOf_def)

lemma indexOf_nth: "x \<in> set xs \<Longrightarrow> xs ! nat (indexOf xs x) = x"
  using indexOf_from_nth [of x xs 0] by (simp add: indexOf_def)

lemma indexOf_lower: "- 1 \<le> indexOf xs x"
proof (cases "x \<in> set xs")
  case True
  with indexOf_range [of x xs] show ?thesis by simp
next
  case False
  then show ?thesis by (simp add: indexOf_def indexOf_from_absent)
qed

subsection \<open>The branches of the worklet\<close>

lemma normalizedSnapPoints_not_ready:
  "\<not> containerLayoutReady e i \<Longrightarrow> normalizedSnapPoints e i k = ([INITIAL_SNAP_POINT e], k)"
  by (simp add: normalizedSnapPoints_def containerLayoutReady_def)

lemma normalizedSnapPoints_static:
  "containerLayoutReady e i \<Longrightarrow> \<not> enableDynamicSizing i \<Longrightarrow>
   normalizedSnapPoints e i k = (normalizedRaw e i, k)"
  by (simp add: normalizedSnapPoints_def containerLayoutReady_def normalizedRaw_def)

lemma normalizedSnapPoints_unmeasured:
  "enableDynamicSizing i \<Longrightarrow> \<not> measurementsReady e i \<Longrightarrow>
   normalizedSnapPoints e i k = ([INITIAL_SNAP_POINT e], k)"
  by (auto simp: normalizedSnapPoints_def measurementsReady_def Let_def)

lemma normalizedSnapPoints_dynamic:
  "containerLayoutReady e i \<Longrightarrow> enableDynamicSizing i \<Longrightarrow> measurementsReady e i \<Longrightarrow>
   normalizedSnapPoints e i k =
     (sort_by (\<lambda>a b. b - a) (pushIfMissing (normalizedRaw e i) (dynamicSnapPoint i)),
      indexOf (sort_by (\<lambda>a b. b - a) (pushIfMissing (normalizedRaw e i) (dynamicSnapPoint i)))
        (dynamicSnapPoint i))"
  by (simp add: normalizedSnapPoints_def containerLayoutReady_def measurementsReady_def
      normalizedRaw_def pushIfMissing_def Let_def)

lemma set_pushIfMissing: "set (pushIfMissing ns d) = insert d (set ns)"
  by (auto simp: pushIfMissing_def array_includes_set)

lemma count_pushIfMissing: "count_list (pushIfMissing ns d) d = (if d \<in> set ns then count_list ns d else 1)"
  by (simp add: pushIfMissing_def array_includes_set)

lemma dynamicSnapPoint_spec: "dynamicSnapPoint i = dynamicPoint_spec i"
  by (cases "maxDynamicContentSize i") (simp_all add: dynamicSnapPoint_def dynamicPoint_spec_def)

lemma sort_by_singleton:
  "sort_by cmp xs = [s] \<longleftrightarrow> xs = [s]"
proof
  assume h: "sort_by cmp xs = [s]"
  then have "length xs = 1" using length_sort_by [of cmp xs] by simp
  then obtain x where x: "xs = [x]" by (cases xs) auto
  with h show "xs = [s]" by simp
next
  assume "xs = [s]"
  then show "sort_by cmp xs = [s]" by simp
qed

lemma pushIfMissing_singleton:
  "pushIfMissing ns d = [s] \<longleftrightarrow> d = s \<and> (ns = [] \<or> ns = [s])"
  by (cases ns) (auto simp: pushIfMissing_def array_includes_set)

text \<open>
  Two facts that hold whatever the helper \<open>normalizeSnapPoint\<close> and the constants are:
  on the full branch the dynamic snap point occurs as often as the conditional push left
  it, and with dynamic sizing disabled a raw list \<open>[a, b, a]\<close> whose two entries normalize
  to different values is returned out of order.
\<close>

lemma count_dynamicSnapPoint:
  assumes "containerLayoutReady e i" and "enableDynamicSizing i" and "measurementsReady e i"
  shows "count_list (fst (normalizedSnapPoints e i k)) (dynamicSnapPoint i) =
           (if dynamicSnapPoint i \<in> set (normalizedRaw e i)
            then count_list (normalizedRaw e i) (dynamicSnapPoint i) else 1)"
  by (simp only: normalizedSnapPoints_dynamic [OF assms] fst_conv count_sort_by
      count_pushIfMissing)

lemma static_order_kept:
  assumes "containerLayoutReady e i" and "\<not> enableDynamicSizing i"
    and "extractSnapPoints (snapPoints i) = [a, b, a]"
    and "normalizeSnapPoint e a (containerHeight i) \<noteq> normalizeSnapPoint e b (containerHeight i)"
  shows "\<not> descending (fst (normalizedSnapPoints e i k))"
  using assms by (auto simp: normalizedSnapPoints_static normalizedRaw_def descending_def)

subsection \<open>The stored index\<close>

lemma indexOf_member:
  "x \<in> set xs \<Longrightarrow> 0 \<le> indexOf xs x \<and> indexOf xs x < int (length xs) \<and> xs ! nat (indexOf xs x) = x"
  by (simp add: indexOf_range indexOf_nth)

lemma index_unchanged:
  "\<not> (containerLayoutReady e i \<and> enableDynamicSizing i \<and> measurementsReady e i) \<Longrightarrow>
   snd (normalizedSnapPoints e i k) = k"
proof (cases "containerLayoutReady e i")
  case False
  then show ?thesis by (simp add: normalizedSnapPoints_not_ready)
next
  case ready: True
  assume h: "\<not> (containerLayoutReady e i \<and> enableDynamicSizing i \<and> measurementsReady e i)"
  show ?thesis
  proof (cases "enableDynamicSizing i")
    case False
    with ready show ?thesis by (simp add: normalizedSnapPoints_static)
  next
    case True
    with ready h show ?thesis by (simp add: normalizedSnapPoints_unmeasured)
  qed
qed

lemma index_lower: "- 1 \<le> k \<Longrightarrow> - 1 \<le> snd (normalizedSnapPoints e i k)"
proof (cases "containerLayoutReady e i \<and> enableDynamicSizing i \<and> measurementsReady e i")
  case True
  then show ?thesis by (simp add: normalizedSnapPoints_dynamic indexOf_lower)
next
  case False
  assume "- 1 \<le> k"
  with False show ?thesis by (simp add: index_unchanged)
qed

lemma index_valid:
  assumes "containerLayoutReady e i" and "enableDynamicSizing i" and "measurementsReady e i"
  shows "0 \<le> snd (normalizedSnapPoints e i k)
       \<and> snd (normalizedSnapPoints e i k) < int (length (fst (normalizedSnapPoints e i k)))
       \<and> fst (normalizedSnapPoints e i k) ! nat (snd (normalizedSnapPoints e i k)) = dynamicSnapPoint i"
proof -
  let ?d = "dynamicSnapPoint i"
  let ?l = "sort_by (\<lambda>a b. b - a) (pushIfMissing (normalizedRaw e i) ?d)"
  have res: "normalizedSnapPoints e i k = (?l, indexOf ?l ?d)"
    by (rule normalizedSnapPoints_dynamic [OF assms])
  have "?d \<in> set ?l" by (simp add: set_sort_by set_pushIfMissing)
  from indexOf_member [OF this] res show ?thesis by simp
qed

lemma run_simps:
  "latest (run e i k) = i"
  "normalized (run e i k) = fst (normalizedSnapPoints e i k)"
  "dynamicSnapPointIndex (run e i k) = snd (normalizedSnapPoints e i k)"
  by (simp_all add: run_def split: prod.split)

lemma reachable_index_lower: "reachable e s \<Longrightarrow> - 1 \<le> dynamicSnapPointIndex s"
  by (induction rule: reachable.induct) (simp_all add: run_simps index_lower)

lemma reachable_history: "reachable e s \<Longrightarrow> \<exists>past. history e past s"
proof (induction rule: reachable.induct)
  case (mount i)
  have "history e [i] (run e i (- 1))" by (rule history.first)
  then show ?case by blast
next
  case (update s i)
  then obtain past where "history e past s" by blast
  then have "history e (i # past) (run e i (dynamicSnapPointIndex s))" by (rule history.later)
  then show ?case by blast
qed

lemma history_reachable: "history e past s \<Longrightarrow> reachable e s"
  by (induction rule: history.induct) (auto intro: reachable.intros)

lemma history_latest: "history e past s \<Longrightarrow> past \<noteq> [] \<and> latest s = hd past"
  by (induction rule: history.induct) (simp_all add: run_simps)

lemma index_full:
  "fullRun e i \<Longrightarrow> snd (normalizedSnapPoints e i k) = snd (normalizedSnapPoints e i k')"
  by (simp add: fullRun_def normalizedSnapPoints_dynamic)

lemma index_early_exit: "\<not> fullRun e i \<Longrightarrow> snd (normalizedSnapPoints e i k) = k"
  unfolding fullRun_def by (rule index_unchanged)

lemma history_index:
  "history e past s \<Longrightarrow>
   (case find (fullRun e) past of
      None \<Rightarrow> dynamicSnapPointIndex s = - 1
    | Some j \<Rightarrow> \<forall>k. dynamicSnapPointIndex s = snd (normalizedSnapPoints e j k))"
proof (induction rule: history.induct)
  case (first i)
  show ?case
  proof (cases "fullRun e i")
    case True
    then show ?thesis using index_full [OF True, of "- 1"] by (simp add: run_simps)
  next
    case False
    then show ?thesis by (simp add: run_simps index_early_exit)
  qed
next
  case (later past s i)
  show ?case
  proof (cases "fullRun e i")
    case True
    then show ?thesis using index_full [OF True, of "dynamicSnapPointIndex s"]
      by (simp add: run_simps)
  next
    case False
    then have "dynamicSnapPointIndex (run e i (dynamicSnapPointIndex s)) = dynamicSnapPointIndex s"
      by (simp add: run_simps index_early_exit)
    with later.IH False show ?thesis by (auto split: option.splits)
  qed
qed

lemma find_fullRun: "find (fullRun e) past = Some j \<Longrightarrow> fullRun e j"
  by (induction past) (auto split: if_splits)

subsection \<open>The dynamic-presence flag\<close>

lemma hasDynamicSnapPoint_eq:
  "hasDynamicSnapPoint i =
     (enableDynamicSizing i \<or> truthy (find_first is_string (extractSnapPoints (snapPoints i))))"
  by (cases "extractSnapPoints (snapPoints i)") (simp_all add: hasDynamicSnapPoint_def Let_def)

lemma find_first_string:
  "find_first is_string xs = None \<longleftrightarrow> (\<forall>x \<in> set xs. \<not> is_string x)"
  by (induction xs) auto

lemma truthy_find_first_string:
  "Str [] \<notin> set xs \<Longrightarrow> truthy (find_first is_string xs) = (\<exists>x \<in> set xs. is_string x)"
proof (induction xs)
  case Nil
  then show ?case by simp
next
  case (Cons x xs)
  then show ?case by (cases x) auto
qed

lemma hasDynamicSnapPoint_without_empty_string:
  "Str [] \<notin> set (extractSnapPoints (snapPoints i)) \<Longrightarrow>
   hasDynamicSnapPoint i =
     (enableDynamicSizing i \<or> (\<exists>x \<in> set (extractSnapPoints (snapPoints i)). is_string x))"
  by (simp add: hasDynamicSnapPoint_eq truthy_find_first_string)

subsection \<open>Evaluation at concrete inputs\<close>

lemma env_example_simps:
  "INITIAL_CONTAINER_HEIGHT env_example = - 999"
  "INITIAL_HANDLE_HEIGHT env_example = - 999"
  "INITIAL_SNAP_POINT env_example = - 999"
  "normalizeSnapPoint env_example = normalizeSnapPoint_spec"
  by (simp_all add: env_example_def)

lemmas eval_simps =
  env_example_simps containerLayoutReady_def measurementsReady_def normalizedRaw_def
  normalizedSnapPoints_def dynamicSnapPoint_def dynamicPoint_spec_def indexOf_def
  percentage_def digit_def descending_def Let_def

section \<open>The properties of the specification\<close>

subsection \<open>The dynamic snap point\<close>

text \<open>
  C2.  With dynamic sizing enabled and all measurements ready, the dynamic snap point the
  worklet computes is the container height minus the minimum of
  \<open>contentHeight + handleHeight + footerHeight\<close> and the cap (\<open>maxDynamicContentSize\<close> if
  defined, the container height otherwise).  It is the value whose position the worklet
  records, and the returned array holds it at that position.
\<close>

theorem C2_dynamic_point_formula:
  assumes "enableDynamicSizing i" and "containerLayoutReady e i" and "measurementsReady e i"
  shows "dynamicSnapPoint i = dynamicPoint_spec i
       \<and> snd (normalizedSnapPoints e i k) = indexOf (fst (normalizedSnapPoints e i k)) (dynamicPoint_spec i)
       \<and> fst (normalizedSnapPoints e i k) ! nat (snd (normalizedSnapPoints e i k)) = dynamicPoint_spec i"
proof -
  let ?d = "dynamicSnapPoint i"
  let ?l = "sort_by (\<lambda>a b. b - a) (pushIfMissing (normalizedRaw e i) ?d)"
  have eq: "?d = dynamicPoint_spec i" by (rule dynamicSnapPoint_spec)
  have res: "normalizedSnapPoints e i k = (?l, indexOf ?l ?d)"
    by (rule normalizedSnapPoints_dynamic [OF assms(2) assms(1) assms(3)])
  have "?d \<in> set ?l" by (simp add: set_sort_by set_pushIfMissing)
  then have "?l ! nat (indexOf ?l ?d) = ?d" by (rule indexOf_nth)
  with res eq show ?thesis by simp
qed

theorem C2_dynamic_point_formula_witness:
  "enableDynamicSizing i_capped \<and> containerLayoutReady env_example i_capped \<and>
   measurementsReady env_example i_capped \<and> dynamicSnapPoint i_capped = 1000 - min (700 + 24 + 60) 600 \<and>
   normalizedSnapPoints env_example i_capped (- 1) = ([800, 400, 200], 1)"
proof -
  have a: "enableDynamicSizing i_capped" by (simp add: i_capped_def)
  have b: "containerLayoutReady env_example i_capped" by (simp add: i_capped_def eval_simps)
  have c: "measurementsReady env_example i_capped" by (simp add: i_capped_def eval_simps)
  have s: "dynamicPoint_spec i_capped = 1000 - min (700 + 24 + 60) 600"
    by (simp add: i_capped_def dynamicPoint_spec_def)
  have r: "normalizedSnapPoints env_example i_capped (- 1) = ([800, 400, 200], 1)"
    by (simp add: i_capped_def eval_simps)
  from C2_dynamic_point_formula [OF a b c, of "- 1"] a b c s r show ?thesis by simp
qed

text \<open>
  C9.  With dynamic sizing enabled, all measurements ready, no \<open>maxDynamicContentSize\<close> and
  nonnegative content, handle and footer heights, the dynamic snap point is nonnegative:
  the capped content size does not exceed the container height.
\<close>

theorem C9_dynamic_point_nonnegative:
  assumes "enableDynamicSizing i" and "containerLayoutReady e i" and "measurementsReady e i"
    and "maxDynamicContentSize i = None"
    and "0 \<le> contentHeight i" and "0 \<le> handleHeight i" and "0 \<le> footerHeight i"
  shows "0 \<le> dynamicSnapPoint i
       \<and> min (contentHeight i + handleHeight i + footerHeight i) (containerHeight i) \<le> containerHeight i
       \<and> 0 \<le> fst (normalizedSnapPoints e i k) ! nat (snd (normalizedSnapPoints e i k))"
proof -
  let ?d = "dynamicSnapPoint i"
  let ?l = "sort_by (\<lambda>a b. b - a) (pushIfMissing (normalizedRaw e i) ?d)"
  have nonneg: "0 \<le> ?d" using assms(4) by (simp add: dynamicSnapPoint_def)
  have res: "normalizedSnapPoints e i k = (?l, indexOf ?l ?d)"
    by (rule normalizedSnapPoints_dynamic [OF assms(2) assms(1) assms(3)])
  have "?d \<in> set ?l" by (simp add: set_sort_by set_pushIfMissing)
  then have "?l ! nat (indexOf ?l ?d) = ?d" by (rule indexOf_nth)
  with res nonneg show ?thesis by simp
qed

theorem C9_dynamic_point_nonnegative_witness:
  "enableDynamicSizing i_once \<and> containerLayoutReady env_example i_once \<and>
   measurementsReady env_example i_once \<and> maxDynamicContentSize i_once = None \<and>
   0 \<le> contentHeight i_once \<and> 0 \<le> handleHeight i_once \<and> 0 \<le> footerHeight i_once \<and>
   dynamicSnapPoint i_once = 500 \<and> 0 \<le> dynamicSnapPoint i_once"
proof -
  have a: "enableDynamicSizing i_once" by (simp add: i_once_def)
  have b: "containerLayoutReady env_example i_once" by (simp add: i_once_def eval_simps)
  have c: "measurementsReady env_example i_once" by (simp add: i_once_def eval_simps)
  have d: "maxDynamicContentSize i_once = None" by (simp add: i_once_def)
  have f: "0 \<le> contentHeight i_once" "0 \<le> handleHeight i_once" "0 \<le> footerHeight i_once"
    by (simp_all add: i_once_def)
  have v: "dynamicSnapPoint i_once = 500" by (simp add: i_once_def dynamicSnapPoint_def)
  from C9_dynamic_point_nonnegative [OF a b c d f, of "- 1"] a b c d f v show ?thesis by simp
qed

text \<open>
  The statement "with dynamic sizing enabled and every measurement ready the returned list
  holds the dynamic snap point exactly once" fails when the normalized raw list already
  holds the value more than once: the worklet pushes only if the value is missing and
  never removes anything.  Two raw entries \<open>500\<close> in a container of height \<open>1000\<close> with
  \<open>500\<close> pixels of content, handle and footer give \<open>[500, 500]\<close>.
\<close>

theorem C1_exactly_once_counterexample:
  "enableDynamicSizing i_dup \<and> containerLayoutReady env_example i_dup \<and>
   measurementsReady env_example i_dup \<and>
   fst (normalizedSnapPoints env_example i_dup (- 1)) = [500, 500] \<and>
   dynamicSnapPoint i_dup = 500 \<and>
   count_list (fst (normalizedSnapPoints env_example i_dup (- 1))) (dynamicSnapPoint i_dup) \<noteq> 1"
  by (simp add: i_dup_def eval_simps)

text \<open>
  C1.  With dynamic sizing enabled, the container layout ready and the handle and content
  measurements ready, the returned list holds the dynamic snap point as often as the
  normalized raw list does, and once if the normalized raw list does not hold it; so it
  holds it at least once, and exactly once whenever the normalized raw list holds it at
  most once.  The returned list is sorted in descending order.
\<close>

theorem C1_dynamic_point_included_and_sorted:
  assumes "enableDynamicSizing i" and "containerLayoutReady e i" and "measurementsReady e i"
  shows "count_list (fst (normalizedSnapPoints e i k)) (dynamicSnapPoint i) =
           (if dynamicSnapPoint i \<in> set (normalizedRaw e i)
            then count_list (normalizedRaw e i) (dynamicSnapPoint i) else 1)
         \<and> 1 \<le> count_list (fst (normalizedSnapPoints e i k)) (dynamicSnapPoint i)
         \<and> descending (fst (normalizedSnapPoints e i k))"
proof -
  let ?d = "dynamicSnapPoint i"
  have res: "fst (normalizedSnapPoints e i k) =
      sort_by (\<lambda>a b. b - a) (pushIfMissing (normalizedRaw e i) ?d)"
    using assms by (simp add: normalizedSnapPoints_dynamic)
  have cnt: "count_list (fst (normalizedSnapPoints e i k)) ?d =
      (if ?d \<in> set (normalizedRaw e i) then count_list (normalizedRaw e i) ?d else 1)"
    by (simp only: res count_sort_by count_pushIfMissing)
  have "?d \<in> set (fst (normalizedSnapPoints e i k))"
    by (simp add: res set_sort_by set_pushIfMissing)
  then have "count_list (fst (normalizedSnapPoints e i k)) ?d \<noteq> 0"
    by (simp only: count_list_0_iff not_not)
  moreover have "descending (fst (normalizedSnapPoints e i k))"
    by (simp add: res descending_def descending_sort_by)
  ultimately show ?thesis using cnt by simp
qed

theorem C1_dynamic_point_included_and_sorted_witness:
  "enableDynamicSizing i_once \<and> containerLayoutReady env_example i_once \<and>
   measurementsReady env_example i_once \<and>
   fst (normalizedSnapPoints env_example i_once (- 1)) = [800, 500, 200] \<and>
   dynamicSnapPoint i_once = 500 \<and>
   count_list (fst (normalizedSnapPoints env_example i_once (- 1))) (dynamicSnapPoint i_once) = 1 \<and>
   descending (fst (normalizedSnapPoints env_example i_once (- 1)))"
proof -
  have a: "enableDynamicSizing i_once" by (simp add: i_once_def)
  have b: "containerLayoutReady env_example i_once" by (simp add: i_once_def eval_simps)
  have c: "measurementsReady env_example i_once" by (simp add: i_once_def eval_simps)
  have d: "dynamicSnapPoint i_once = 500" by (simp add: i_once_def dynamicSnapPoint_def)
  have r: "normalizedRaw env_example i_once = [200, 800]" by (simp add: i_once_def eval_simps)
  have l: "fst (normalizedSnapPoints env_example i_once (- 1)) = [800, 500, 200]"
    by (simp add: i_once_def eval_simps)
  from C1_dynamic_point_included_and_sorted [OF a b c, of "- 1"] a b c d r l
  show ?thesis by simp
qed

subsection \<open>Dynamic sizing disabled\<close>

text \<open>
  C4.  With the container layout ready and dynamic sizing disabled, the result is the
  element-wise normalization of the raw list: same length, the entry at each position is
  the normalized raw entry of that position, nothing is sorted.
\<close>

theorem C4_static_list_is_normalized_raw:
  assumes "containerLayoutReady e i" and "\<not> enableDynamicSizing i"
  shows "fst (normalizedSnapPoints e i k) =
           map (\<lambda>snapPoint. normalizeSnapPoint e snapPoint (containerHeight i))
             (extractSnapPoints (snapPoints i))
       \<and> length (fst (normalizedSnapPoints e i k)) = length (extractSnapPoints (snapPoints i))
       \<and> (\<forall>j < length (extractSnapPoints (snapPoints i)).
            fst (normalizedSnapPoints e i k) ! j =
              normalizeSnapPoint e (extractSnapPoints (snapPoints i) ! j) (containerHeight i))"
  using assms by (simp add: normalizedSnapPoints_static normalizedRaw_def)

theorem C4_static_list_is_normalized_raw_witness:
  "containerLayoutReady env_example i_static \<and> \<not> enableDynamicSizing i_static \<and>
   fst (normalizedSnapPoints env_example i_static 3) = [500, 200, 500] \<and>
   fst (normalizedSnapPoints env_example i_static 3) ! 1 = 200"
proof -
  have a: "containerLayoutReady env_example i_static" by (simp add: i_static_def eval_simps)
  have b: "\<not> enableDynamicSizing i_static" by (simp add: i_static_def)
  have r: "extractSnapPoints (snapPoints i_static) = [Num 500, Num 200, Num 500]"
    by (simp add: i_static_def)
  have h: "containerHeight i_static = 1000" by (simp add: i_static_def)
  from C4_static_list_is_normalized_raw [OF a b, of 3] a b show ?thesis
    by (simp add: r h env_example_simps)
qed

text \<open>
  The statement "the returned list is always sorted in descending order" fails with dynamic
  sizing disabled, where the normalized raw list is returned in raw order.
\<close>

theorem C5_always_descending_counterexample:
  "fst (normalizedSnapPoints env_example i_static (- 1)) = [500, 200, 500] \<and>
   \<not> descending (fst (normalizedSnapPoints env_example i_static (- 1)))"
  by (simp add: i_static_def eval_simps)

text \<open>
  C5.  The returned list is sorted in descending order on every branch but the one for
  dynamic sizing disabled; there (container layout ready, dynamic sizing disabled) it is
  sorted in descending order exactly when the normalized raw list is.
\<close>

theorem C5_descending_unless_static:
  "descending (fst (normalizedSnapPoints e i k)) \<longleftrightarrow>
     (containerLayoutReady e i \<and> \<not> enableDynamicSizing i \<longrightarrow> descending (normalizedRaw e i))"
proof (cases "containerLayoutReady e i")
  case False
  then show ?thesis by (simp add: normalizedSnapPoints_not_ready descending_def)
next
  case ready: True
  show ?thesis
  proof (cases "enableDynamicSizing i")
    case False
    with ready show ?thesis by (simp add: normalizedSnapPoints_static)
  next
    case dyn: True
    show ?thesis
    proof (cases "measurementsReady e i")
      case False
      with dyn show ?thesis by (simp add: normalizedSnapPoints_unmeasured descending_def)
    next
      case True
      with ready dyn show ?thesis
        by (simp add: normalizedSnapPoints_dynamic descending_def descending_sort_by)
    qed
  qed
qed

theorem C5_descending_unless_static_witness:
  "containerLayoutReady env_example i_descending \<and> \<not> enableDynamicSizing i_descending \<and>
   normalizedRaw env_example i_descending = [800, 200] \<and>
   descending (fst (normalizedSnapPoints env_example i_descending (- 1))) \<and>
   descending (fst (normalizedSnapPoints env_example i_once (- 1)))"
proof -
  have r: "normalizedRaw env_example i_descending = [800, 200]"
    by (simp add: i_descending_def eval_simps)
  have a: "containerLayoutReady env_example i_descending \<and> \<not> enableDynamicSizing i_descending"
    by (simp add: i_descending_def eval_simps)
  have d: "descending (normalizedRaw env_example i_descending)"
    by (simp add: r descending_def)
  have b: "enableDynamicSizing i_once" by (simp add: i_once_def)
  from C5_descending_unless_static [of env_example i_descending "- 1"]
       C5_descending_unless_static [of env_example i_once "- 1"] r a d b
  show ?thesis by simp
qed

subsection \<open>The sentinel list\<close>

text \<open>
  The statement "the one-element sentinel list is returned in no state whose layout is
  ready" fails: a state with every measurement ready can compute a list that happens to
  be the sentinel list.  Here the raw list is absent and the dynamic snap point is
  \<open>1000 - min (5000 + 24 + 0) 1999 = - 999\<close>.
\<close>

theorem C3_sentinel_only_when_not_ready_counterexample:
  "containerLayoutReady env_example i_sentinel \<and> enableDynamicSizing i_sentinel \<and>
   measurementsReady env_example i_sentinel \<and>
   fst (normalizedSnapPoints env_example i_sentinel (- 1)) = [INITIAL_SNAP_POINT env_example]"
  by (simp add: i_sentinel_def eval_simps)

text \<open>
  C3.  The one-element sentinel list is returned whenever the container height equals its
  initial value, and whenever dynamic sizing is enabled and the handle height or the
  content height equals its initial value.  In any other state it is returned exactly when
  the computed list is itself that list: dynamic sizing is disabled and the normalized raw
  list is the sentinel list, or dynamic sizing is enabled, the dynamic snap point equals
  the sentinel value and the normalized raw list is empty or the sentinel list.
\<close>

theorem C3_sentinel_characterised:
  "fst (normalizedSnapPoints e i k) = [INITIAL_SNAP_POINT e] \<longleftrightarrow>
     \<not> containerLayoutReady e i
   \<or> enableDynamicSizing i \<and> \<not> measurementsReady e i
   \<or> containerLayoutReady e i \<and> \<not> enableDynamicSizing i
       \<and> normalizedRaw e i = [INITIAL_SNAP_POINT e]
   \<or> containerLayoutReady e i \<and> enableDynamicSizing i \<and> measurementsReady e i
       \<and> dynamicSnapPoint i = INITIAL_SNAP_POINT e
       \<and> (normalizedRaw e i = [] \<or> normalizedRaw e i = [INITIAL_SNAP_POINT e])"
proof (cases "containerLayoutReady e i")
  case False
  then show ?thesis by (simp add: normalizedSnapPoints_not_ready)
next
  case ready: True
  show ?thesis
  proof (cases "enableDynamicSizing i")
    case False
    with ready show ?thesis by (simp add: normalizedSnapPoints_static)
  next
    case dyn: True
    show ?thesis
    proof (cases "measurementsReady e i")
      case False
      with dyn show ?thesis by (simp add: normalizedSnapPoints_unmeasured)
    next
      case True
      with ready dyn show ?thesis
        by (simp add: normalizedSnapPoints_dynamic sort_by_singleton pushIfMissing_singleton)
    qed
  qed
qed

theorem C3_sentinel_characterised_witness:
  "\<not> containerLayoutReady env_example i_unmounted \<and>
   fst (normalizedSnapPoints env_example i_unmounted 2) = [- 999] \<and>
   enableDynamicSizing i_unmeasured \<and> \<not> measurementsReady env_example i_unmeasured \<and>
   fst (normalizedSnapPoints env_example i_unmeasured 2) = [- 999] \<and>
   containerLayoutReady env_example i_once \<and> measurementsReady env_example i_once \<and>
   fst (normalizedSnapPoints env_example i_once 2) \<noteq> [- 999]"
proof -
  have a: "\<not> containerLayoutReady env_example i_unmounted"
    by (simp add: i_unmounted_def eval_simps)
  have b: "enableDynamicSizing i_unmeasured \<and> \<not> measurementsReady env_example i_unmeasured"
    by (simp add: i_unmeasured_def eval_simps)
  have c: "containerLayoutReady env_example i_once \<and> enableDynamicSizing i_once \<and>
      measurementsReady env_example i_once \<and> dynamicSnapPoint i_once = 500"
    by (simp add: i_once_def eval_simps)
  from C3_sentinel_characterised [of env_example i_unmounted 2]
       C3_sentinel_characterised [of env_example i_unmeasured 2]
       C3_sentinel_characterised [of env_example i_once 2] a b c
  show ?thesis by (simp add: env_example_simps)
qed

subsection \<open>The stored index across runs\<close>

text \<open>
  C8.  On each early exit (container layout not ready, dynamic sizing disabled, handle
  height not ready, content height not ready) the stored index keeps its previous value;
  the full dynamic-sizing branch, and only it, stores \<open>indexOf\<close> of the dynamic snap point
  in the returned list.
\<close>

theorem C8_index_written_only_by_full_run:
  "(\<not> containerLayoutReady e i \<or> \<not> enableDynamicSizing i \<or>
    handleHeight i = INITIAL_HANDLE_HEIGHT e \<or> contentHeight i = INITIAL_CONTAINER_HEIGHT e
      \<longrightarrow> snd (normalizedSnapPoints e i k) = k)
   \<and> (containerLayoutReady e i \<and> enableDynamicSizing i \<and> measurementsReady e i
      \<longrightarrow> snd (normalizedSnapPoints e i k) =
            indexOf (fst (normalizedSnapPoints e i k)) (dynamicSnapPoint i))"
proof (intro conjI impI)
  assume "\<not> containerLayoutReady e i \<or> \<not> enableDynamicSizing i \<or>
    handleHeight i = INITIAL_HANDLE_HEIGHT e \<or> contentHeight i = INITIAL_CONTAINER_HEIGHT e"
  then have "\<not> (containerLayoutReady e i \<and> enableDynamicSizing i \<and> measurementsReady e i)"
    by (auto simp: measurementsReady_def)
  then show "snd (normalizedSnapPoints e i k) = k" by (rule index_unchanged)
next
  assume "containerLayoutReady e i \<and> enableDynamicSizing i \<and> measurementsReady e i"
  then show "snd (normalizedSnapPoints e i k) =
      indexOf (fst (normalizedSnapPoints e i k)) (dynamicSnapPoint i)"
    by (simp add: normalizedSnapPoints_dynamic)
qed

theorem C8_index_written_only_by_full_run_witness:
  "\<not> containerLayoutReady env_example i_unmounted \<and> snd (normalizedSnapPoints env_example i_unmounted 7) = 7 \<and>
   \<not> enableDynamicSizing i_static \<and> snd (normalizedSnapPoints env_example i_static 7) = 7 \<and>
   handleHeight i_unmeasured = INITIAL_HANDLE_HEIGHT env_example \<and>
   snd (normalizedSnapPoints env_example i_unmeasured 7) = 7 \<and>
   containerLayoutReady env_example i_once \<and> enableDynamicSizing i_once \<and>
   measurementsReady env_example i_once \<and> snd (normalizedSnapPoints env_example i_once 7) = 1"
proof -
  have a: "\<not> containerLayoutReady env_example i_unmounted" by (simp add: i_unmounted_def eval_simps)
  have b: "\<not> enableDynamicSizing i_static" by (simp add: i_static_def)
  have c: "handleHeight i_unmeasured = INITIAL_HANDLE_HEIGHT env_example"
    by (simp add: i_unmeasured_def eval_simps)
  have d: "containerLayoutReady env_example i_once \<and> enableDynamicSizing i_once \<and>
      measurementsReady env_example i_once"
    by (simp add: i_once_def eval_simps)
  have l: "fst (normalizedSnapPoints env_example i_once 7) = [800, 500, 200]"
    by (simp add: i_once_def eval_simps)
  have v: "dynamicSnapPoint i_once = 500" by (simp add: i_once_def dynamicSnapPoint_def)
  from C8_index_written_only_by_full_run [of env_example i_unmounted 7]
       C8_index_written_only_by_full_run [of env_example i_static 7]
       C8_index_written_only_by_full_run [of env_example i_unmeasured 7]
       C8_index_written_only_by_full_run [of env_example i_once 7]
       a b c d l v
  show ?thesis by (simp add: indexOf_def)
qed

text \<open>
  The statement "in every reachable state the index is \<open>-1\<close> or a position of the current
  list holding the current dynamic snap point" fails after an early exit that follows a
  full run: the index \<open>0\<close> stored on mount stays when dynamic sizing is switched off and
  the list becomes empty.
\<close>

theorem C6_index_valid_in_every_state_counterexample:
  "reachable env_example s_stale \<and> normalized s_stale = [] \<and> dynamicSnapPointIndex s_stale = 0 \<and>
   \<not> (dynamicSnapPointIndex s_stale = - 1 \<or>
      0 \<le> dynamicSnapPointIndex s_stale \<and>
      dynamicSnapPointIndex s_stale < int (length (normalized s_stale)) \<and>
      normalized s_stale ! nat (dynamicSnapPointIndex s_stale) = dynamicSnapPoint (latest s_stale))"
proof -
  have "reachable env_example s_mounted" unfolding s_mounted_def by (rule reachable.mount)
  then have "reachable env_example s_stale" unfolding s_stale_def by (rule reachable.update)
  moreover have "dynamicSnapPointIndex s_mounted = 0"
    by (simp add: s_mounted_def run_simps i_absent_dynamic_def eval_simps)
  then have "normalized s_stale = [] \<and> dynamicSnapPointIndex s_stale = 0"
    by (simp add: s_stale_def run_simps i_absent_static_def eval_simps)
  ultimately show ?thesis by simp
qed

text \<open>
  C6.  In every reachable state the index is \<open>-1\<close> as long as no run has taken the full
  dynamic-sizing branch, and otherwise it is the position recorded by the latest run that
  took it: a position \<open>i\<close> with \<open>0 \<le> i < length\<close> of the list that run returned, at
  which that list holds the dynamic snap point that run computed.  So in a reachable state
  whose latest run took the full branch the index is a position of the current list
  holding the current dynamic snap point, and a run that takes an early exit leaves the
  index as it was.
\<close>

theorem C6_index_from_latest_full_run:
  assumes "reachable e s"
  shows "(\<exists>past. history e past s)
       \<and> (\<forall>past. history e past s \<longrightarrow>
            (case find (fullRun e) past of
               None \<Rightarrow> dynamicSnapPointIndex s = - 1
             | Some j \<Rightarrow>
                 \<forall>k. dynamicSnapPointIndex s = snd (normalizedSnapPoints e j k) \<and>
                     0 \<le> dynamicSnapPointIndex s \<and>
                     dynamicSnapPointIndex s < int (length (fst (normalizedSnapPoints e j k))) \<and>
                     fst (normalizedSnapPoints e j k) ! nat (dynamicSnapPointIndex s) =
                       dynamicSnapPoint j))
       \<and> - 1 \<le> dynamicSnapPointIndex s
       \<and> (fullRun e (latest s) \<longrightarrow>
            0 \<le> dynamicSnapPointIndex s \<and>
            dynamicSnapPointIndex s < int (length (normalized s)) \<and>
            normalized s ! nat (dynamicSnapPointIndex s) = dynamicSnapPoint (latest s))
       \<and> (\<forall>i. \<not> fullRun e i \<longrightarrow>
            dynamicSnapPointIndex (run e i (dynamicSnapPointIndex s)) = dynamicSnapPointIndex s)"
proof -
  have exists: "\<exists>past. history e past s" using assms by (rule reachable_history)
  have recorded: "case find (fullRun e) past of
          None \<Rightarrow> dynamicSnapPointIndex s = - 1
        | Some j \<Rightarrow>
            \<forall>k. dynamicSnapPointIndex s = snd (normalizedSnapPoints e j k) \<and>
                0 \<le> dynamicSnapPointIndex s \<and>
                dynamicSnapPointIndex s < int (length (fst (normalizedSnapPoints e j k))) \<and>
                fst (normalizedSnapPoints e j k) ! nat (dynamicSnapPointIndex s) =
                  dynamicSnapPoint j"
    if h: "history e past s" for past
  proof (cases "find (fullRun e) past")
    case None
    with history_index [OF h] show ?thesis by simp
  next
    case (Some j)
    then have full: "fullRun e j" by (rule find_fullRun)
    from history_index [OF h] Some
    have idx: "\<And>k. dynamicSnapPointIndex s = snd (normalizedSnapPoints e j k)" by simp
    have "\<And>k. 0 \<le> snd (normalizedSnapPoints e j k)
        \<and> snd (normalizedSnapPoints e j k) < int (length (fst (normalizedSnapPoints e j k)))
        \<and> fst (normalizedSnapPoints e j k) ! nat (snd (normalizedSnapPoints e j k)) =
            dynamicSnapPoint j"
      using full unfolding fullRun_def by (simp add: index_valid)
    with idx Some show ?thesis by simp
  qed
  have low: "- 1 \<le> dynamicSnapPointIndex s" using assms by (rule reachable_index_lower)
  have current: "0 \<le> dynamicSnapPointIndex s \<and>
        dynamicSnapPointIndex s < int (length (normalized s)) \<and>
        normalized s ! nat (dynamicSnapPointIndex s) = dynamicSnapPoint (latest s)"
    if full: "fullRun e (latest s)"
  proof -
    from assms obtain i k where s: "s = run e i k" by (cases rule: reachable.cases) auto
    from full index_valid [of e i k] show ?thesis by (simp add: s run_simps fullRun_def)
  qed
  have kept: "dynamicSnapPointIndex (run e i (dynamicSnapPointIndex s)) = dynamicSnapPointIndex s"
    if "\<not> fullRun e i" for i
    using that by (simp add: run_simps index_early_exit)
  from exists recorded low current kept show ?thesis by blast
qed

theorem C6_index_from_latest_full_run_witness:
  "reachable env_example s_stale \<and>
   history env_example [i_absent_static, i_absent_dynamic] s_stale \<and>
   find (fullRun env_example) [i_absent_static, i_absent_dynamic] = Some i_absent_dynamic \<and>
   fst (normalizedSnapPoints env_example i_absent_dynamic (- 1)) = [576] \<and>
   dynamicSnapPoint i_absent_dynamic = 576 \<and>
   dynamicSnapPointIndex s_stale = 0 \<and>
   reachable env_example s_mounted \<and> fullRun env_example (latest s_mounted) \<and>
   normalized s_mounted = [576] \<and> dynamicSnapPointIndex s_mounted = 0 \<and>
   \<not> fullRun env_example i_unmounted \<and>
   dynamicSnapPointIndex (run env_example i_unmounted (dynamicSnapPointIndex s_mounted)) = 0 \<and>
   history env_example [i_unmounted] (run env_example i_unmounted (- 1)) \<and>
   find (fullRun env_example) [i_unmounted] = None \<and>
   dynamicSnapPointIndex (run env_example i_unmounted (- 1)) = - 1"
proof -
  have hm: "history env_example [i_absent_dynamic] s_mounted"
    unfolding s_mounted_def by (rule history.first)
  then have hs: "history env_example [i_absent_static, i_absent_dynamic] s_stale"
    unfolding s_stale_def by (rule history.later)
  have hu: "history env_example [i_unmounted] (run env_example i_unmounted (- 1))"
    by (rule history.first)
  have rm: "reachable env_example s_mounted" unfolding s_mounted_def by (rule reachable.mount)
  then have rs: "reachable env_example s_stale" unfolding s_stale_def by (rule reachable.update)
  have ru: "reachable env_example (run env_example i_unmounted (- 1))" by (rule reachable.mount)
  have fd: "fullRun env_example i_absent_dynamic"
    by (simp add: fullRun_def i_absent_dynamic_def eval_simps)
  have fs: "\<not> fullRun env_example i_absent_static"
    by (simp add: fullRun_def i_absent_static_def)
  have fu: "\<not> fullRun env_example i_unmounted"
    by (simp add: fullRun_def i_unmounted_def eval_simps)
  have l: "latest s_mounted = i_absent_dynamic" by (simp add: s_mounted_def run_simps)
  have p: "normalizedSnapPoints env_example i_absent_dynamic (- 1) = ([576], 0)"
    by (simp add: i_absent_dynamic_def eval_simps)
  have d: "dynamicSnapPoint i_absent_dynamic = 576"
    by (simp add: i_absent_dynamic_def dynamicSnapPoint_def)
  have m: "normalized s_mounted = [576]" by (simp add: s_mounted_def run_simps p)
  note stale = C6_index_from_latest_full_run [OF rs, THEN conjunct2, THEN conjunct1, rule_format, OF hs]
  note mounted = C6_index_from_latest_full_run [OF rm, THEN conjunct2, THEN conjunct2, THEN conjunct2]
  note unmounted = C6_index_from_latest_full_run [OF ru, THEN conjunct2, THEN conjunct1, rule_format, OF hu]
  have "\<forall>k. dynamicSnapPointIndex s_stale = snd (normalizedSnapPoints env_example i_absent_dynamic k)"
    using stale fd fs by simp
  then have "dynamicSnapPointIndex s_stale = snd (normalizedSnapPoints env_example i_absent_dynamic (- 1))"
    by (rule spec)
  then have i_stale: "dynamicSnapPointIndex s_stale = 0" by (simp add: p)
  have i_mounted: "dynamicSnapPointIndex s_mounted = 0"
    using mounted [THEN conjunct1] fd l m by simp
  have i_kept: "dynamicSnapPointIndex (run env_example i_unmounted (dynamicSnapPointIndex s_mounted)) = 0"
    using mounted [THEN conjunct2, rule_format, OF fu] i_mounted by simp
  have i_unmounted: "dynamicSnapPointIndex (run env_example i_unmounted (- 1)) = - 1"
    using unmounted fu by simp
  from rs hs fd fs p d i_stale rm l m i_mounted fu i_kept hu i_unmounted show ?thesis by simp
qed

subsection \<open>Absent snap points\<close>

text \<open>
  C10.  An absent \<open>snapPoints\<close> prop is treated as the empty list: with dynamic sizing
  disabled and the container ready the result is the empty list, and with dynamic sizing
  enabled and every measurement ready the result is the one-element list of the dynamic
  snap point, with the recorded index \<open>0\<close>.
\<close>

theorem C10_absent_is_empty_list:
  assumes "snapPoints i = Absent"
  shows "normalizedSnapPoints e i k = normalizedSnapPoints e (i\<lparr>snapPoints := Plain []\<rparr>) k
       \<and> (containerLayoutReady e i \<and> \<not> enableDynamicSizing i \<longrightarrow>
            fst (normalizedSnapPoints e i k) = [])
       \<and> (containerLayoutReady e i \<and> enableDynamicSizing i \<and> measurementsReady e i \<longrightarrow>
            normalizedSnapPoints e i k = ([dynamicSnapPoint i], 0))"
  using assms
  by (simp add: normalizedSnapPoints_def containerLayoutReady_def measurementsReady_def
      dynamicSnapPoint_def indexOf_def Let_def)

theorem C10_absent_is_empty_list_witness:
  "snapPoints i_absent_static = Absent \<and> containerLayoutReady env_example i_absent_static \<and>
   \<not> enableDynamicSizing i_absent_static \<and>
   fst (normalizedSnapPoints env_example i_absent_static (- 1)) = [] \<and>
   snapPoints i_absent_dynamic = Absent \<and> containerLayoutReady env_example i_absent_dynamic \<and>
   enableDynamicSizing i_absent_dynamic \<and> measurementsReady env_example i_absent_dynamic \<and>
   normalizedSnapPoints env_example i_absent_dynamic (- 1) = ([576], 0)"
proof -
  have a: "snapPoints i_absent_static = Absent" by (simp add: i_absent_static_def)
  have b: "snapPoints i_absent_dynamic = Absent" by (simp add: i_absent_dynamic_def)
  have c: "containerLayoutReady env_example i_absent_static \<and> \<not> enableDynamicSizing i_absent_static"
    by (simp add: i_absent_static_def eval_simps)
  have d: "containerLayoutReady env_example i_absent_dynamic \<and> enableDynamicSizing i_absent_dynamic
      \<and> measurementsReady env_example i_absent_dynamic"
    by (simp add: i_absent_dynamic_def eval_simps)
  have v: "dynamicSnapPoint i_absent_dynamic = 576"
    by (simp add: i_absent_dynamic_def dynamicSnapPoint_def)
  from C10_absent_is_empty_list [OF a, of env_example "- 1", THEN conjunct2]
       C10_absent_is_empty_list [OF b, of env_example "- 1", THEN conjunct2] a b c d v
  show ?thesis by simp
qed

subsection \<open>The dynamic-presence flag\<close>

text \<open>
  C7.  The flag is meant to be true if dynamic sizing is enabled or some raw entry is a
  (percentage) string, and false otherwise.  The worklet tests the truthiness of what
  \<open>find\<close> returns, which is the first string entry itself: when that entry is the empty
  string the flag is false, although a later entry is the percentage string \<open>50%\<close>.
\<close>

theorem C7_empty_string_hides_percentage:
  "\<not> enableDynamicSizing i_empty_string_first \<and>
   extractSnapPoints (snapPoints i_empty_string_first) = [Str [], Str ''50%''] \<and>
   is_string (Str ''50%'') \<and>
   find_first is_string (extractSnapPoints (snapPoints i_empty_string_first)) = Some (Str []) \<and>
   hasDynamicSnapPoint i_empty_string_first = False"
  by (simp add: i_empty_string_first_def hasDynamicSnapPoint_def)

end
